theory Spec2Isabelle
  imports Main "HOL-Library.AList"
begin

section \<open>JavaScript strings and numbers as far as the application uses them\<close>

text \<open>
  Strings are lists of characters. File names, ids and dates are scanned only for ASCII
  characters (digits, \<open>-\<close>, \<open>:\<close>, \<open>/\<close>, space, \<open>.\<close>), so a non-ASCII character may be
  held as its UTF-8 bytes: no byte of a multi-byte sequence is an ASCII character.
\<close>

definition is_digit :: "char \<Rightarrow> bool" where
  \<comment> \<open>the regular expression class \<open>\d\<close>\<close>
  "is_digit c = (c \<in> set ''0123456789'')"

definition digit_val :: "char \<Rightarrow> nat" where
  "digit_val c = of_char c - 48"

definition digit_char :: "nat \<Rightarrow> char" where
  "digit_char d = ''0123456789'' ! d"

definition parseInt :: "string \<Rightarrow> nat" where
  \<comment> \<open>\<open>parseInt(s, 10)\<close> on a string of decimal digits\<close>
  "parseInt s = foldl (\<lambda>acc c. 10 * acc + digit_val c) 0 s"

function String_nat :: "nat \<Rightarrow> string" where
  \<comment> \<open>\<open>String(n)\<close> and \<open>`${n}`\<close> for a non-negative integer below \<open>10^21\<close>\<close>
  "String_nat n = (if n < 10 then [digit_char n] else String_nat (n div 10) @ [digit_char (n mod 10)])"
  by pat_completeness auto
termination
  by (relation "measure id") auto

declare String_nat.simps [simp del]

definition String_int :: "int \<Rightarrow> string" where
  "String_int i = (if i < 0 then ''-'' @ String_nat (nat (- i)) else String_nat (nat i))"

definition padStart2 :: "string \<Rightarrow> string" where
  \<comment> \<open>\<open>s.padStart(2, '0')\<close>\<close>
  "padStart2 s = replicate (2 - length s) CHR ''0'' @ s"

fun includes_dotdot :: "string \<Rightarrow> bool" where
  \<comment> \<open>\<open>s.includes('..')\<close>\<close>
  "includes_dotdot (a # b # cs) = (a = CHR ''.'' \<and> b = CHR ''.'' \<or> includes_dotdot (b # cs))"
| "includes_dotdot _ = False"

definition standardize :: "string \<Rightarrow> string" where
  \<comment> \<open>\<open>s.replace(/[:/]/g, '-').split(' ')[0]\<close>\<close>
  "standardize s =
     takeWhile (\<lambda>c. c \<noteq> CHR '' '')
       (map (\<lambda>c. if c = CHR '':'' \<or> c = CHR ''/'' then CHR ''-'' else c) s)"

section \<open>Date resolution (App.tsx)\<close>

text \<open>
  A \<open>Date\<close> is read only through \<open>getFullYear\<close>, \<open>getMonth\<close> (0 to 11) and \<open>getDate\<close>
  in local time. \<open>new Date(string)\<close> is the engine's parser: it is a parameter of the
  model, and \<open>None\<close> stands for an invalid date (\<open>isNaN(parsed.getTime())\<close>).
\<close>

record JSDate =
  getFullYear :: int
  getMonth :: nat
  getDate :: nat

type_synonym date_parser = "string \<Rightarrow> JSDate option"

definition formatToISO :: "JSDate \<Rightarrow> string" where
  "formatToISO date =
     (let y = getFullYear date;
          m = padStart2 (String_nat (getMonth date + 1));
          d = padStart2 (String_nat (getDate date))
      in String_int y @ ''-'' @ m @ ''-'' @ d)"

fun match_digits8 :: "string \<Rightarrow> string option" where
  \<comment> \<open>\<open>filename.match(/(\d{4})(\d{2})(\d{2})/)\<close>: the leftmost eight consecutive digits\<close>
  "match_digits8 [] = None"
| "match_digits8 (c # cs) =
     (if 8 \<le> length (c # cs) \<and> list_all is_digit (take 8 (c # cs))
      then Some (take 8 (c # cs))
      else match_digits8 cs)"

definition extractDateFromFilename :: "string \<Rightarrow> string option" where
  "extractDateFromFilename filename =
     (case match_digits8 filename of
        None \<Rightarrow> None
      | Some w \<Rightarrow>
          (let y = parseInt (take 4 w);
               m = parseInt (take 2 (drop 4 w));
               d = parseInt (take 2 (drop 6 w))
           in if y > 1980 \<and> y < 2100 \<and> m \<ge> 1 \<and> m \<le> 12 \<and> d \<ge> 1 \<and> d \<le> 31
              then Some (String_nat y @ ''-'' @ padStart2 (String_nat m) @ ''-'' @ padStart2 (String_nat d))
              else None))"

definition truthy_string :: "string option \<Rightarrow> bool" where
  \<comment> \<open>a \<open>string | null\<close> as a condition: \<open>null\<close> and the empty string are falsy\<close>
  "truthy_string s = (case s of None \<Rightarrow> False | Some t \<Rightarrow> t \<noteq> [])"

definition parseSmartDate :: "date_parser \<Rightarrow> string \<Rightarrow> string \<Rightarrow> JSDate \<Rightarrow> string" where
  "parseSmartDate newDate filename aiDateStr fileDate =
     (let filenameDate = extractDateFromFilename filename
      in if truthy_string filenameDate then the filenameDate
         else if aiDateStr \<noteq> [] \<and> \<not> includes_dotdot aiDateStr \<and> aiDateStr \<noteq> ''Unknown''
           then (case newDate (standardize aiDateStr) of
                   Some parsed \<Rightarrow>
                     if getFullYear parsed > 1980 then formatToISO parsed
                     else formatToISO fileDate
                 | None \<Rightarrow> formatToISO fileDate)
         else formatToISO fileDate)"



definition no_date :: date_parser where
  \<comment> \<open>an engine that reads no string as a date\<close>
  "no_date s = None"


section \<open>Data model (types.ts)\<close>

text \<open>
  An optional property \<open>key?: T\<close> of an object is absent, present with the value
  \<open>undefined\<close>, or present with a value. The difference between the first two shows in
  an object spread: a property that is present overwrites, whatever its value.
\<close>

datatype 'a optional = Absent | Undefined | Given 'a

definition overwrite :: "'a optional \<Rightarrow> 'a optional \<Rightarrow> 'a optional" where
  \<comment> \<open>the property of \<open>{ ...old, ...new }\<close>\<close>
  "overwrite old new = (case new of Absent \<Rightarrow> old | _ \<Rightarrow> new)"

definition truthy_obj :: "'a optional \<Rightarrow> bool" where
  \<comment> \<open>an optional object property as a condition\<close>
  "truthy_obj x = (case x of Given _ \<Rightarrow> True | _ \<Rightarrow> False)"

text \<open>A \<open>File\<close> (a \<open>Blob\<close> with a name and a modification time).\<close>

record File =
  file_name :: string
  file_size :: nat
  file_lastModified :: int
  file_type :: string
  file_bytes :: "nat list"

text \<open>
  \<open>PhotoMetadata\<close>. Numbers are IEEE doubles in the source; the model leaves their type
  \<open>'n\<close> open and takes the operations it needs on them as parameters. The field \<open>id\<close>
  is written \<open>id'\<close>.
\<close>

record 'n PhotoMetadata =
  id' :: string
  url :: string
  fileBlob :: "File optional"
  name :: string
  locationName :: string
  country :: "string optional"
  latitude :: 'n
  longitude :: 'n
  date :: string
  description :: string
  isProcessing :: bool
  manuallyPlaced :: "bool optional"

record 'n AnalysisResult =
  r_locationName :: string
  r_country :: "string optional"
  r_latitude :: 'n
  r_longitude :: 'n
  r_date :: string
  r_description :: string

text \<open>The string literals of App.tsx that are not ASCII, as UTF-8 bytes.\<close>

definition LOC_IDENTIFYING :: string where
  \<comment> \<open>the location name of a new photo ("identifying...")\<close>
  "LOC_IDENTIFYING = [CHR 0xE7, CHR 0x89, CHR 0xB9, CHR 0xE5, CHR 0xAE, CHR 0x9A, CHR 0xE4, CHR 0xB8, CHR 0xAD, CHR ''.'', CHR ''.'', CHR ''.'']"

definition DESC_ANALYZING :: string where
  \<comment> \<open>the description of a new photo ("Gemini AI is analysing")\<close>
  "DESC_ANALYZING = [CHR ''G'', CHR ''e'', CHR ''m'', CHR ''i'', CHR ''n'', CHR ''i'', CHR '' '', CHR ''A'', CHR ''I'', CHR 0xE3, CHR 0x81, CHR 0x8C, CHR 0xE8, CHR 0xA7, CHR 0xA3, CHR 0xE6, CHR 0x9E, CHR 0x90, CHR 0xE3, CHR 0x81, CHR 0x97, CHR 0xE3, CHR 0x81, CHR 0xA6, CHR 0xE3, CHR 0x81, CHR 0x84, CHR 0xE3, CHR 0x81, CHR 0xBE, CHR 0xE3, CHR 0x81, CHR 0x99]"

definition LOC_FAILED :: string where
  \<comment> \<open>the location name after a failed analysis ("identification failed")\<close>
  "LOC_FAILED = [CHR 0xE7, CHR 0x89, CHR 0xB9, CHR 0xE5, CHR 0xAE, CHR 0x9A, CHR 0xE5, CHR 0xA4, CHR 0xB1, CHR 0xE6, CHR 0x95, CHR 0x97]"

definition LOC_RESOLVING_NAME :: string where
  \<comment> \<open>the location name while a moved photo is renamed ("identifying the place name...")\<close>
  "LOC_RESOLVING_NAME = [CHR 0xE5, CHR 0x9C, CHR 0xB0, CHR 0xE7, CHR 0x82, CHR 0xB9, CHR 0xE5, CHR 0x90, CHR 0x8D, CHR 0xE3, CHR 0x82, CHR 0x92, CHR 0xE7, CHR 0x89, CHR 0xB9, CHR 0xE5, CHR 0xAE, CHR 0x9A, CHR 0xE4, CHR 0xB8, CHR 0xAD, CHR ''.'', CHR ''.'', CHR ''.'']"

definition LOC_NOT_IDENTIFIED :: string where
  \<comment> \<open>the location name after a failed renaming ("could not be identified")\<close>
  "LOC_NOT_IDENTIFIED = [CHR 0xE7, CHR 0x89, CHR 0xB9, CHR 0xE5, CHR 0xAE, CHR 0x9A, CHR 0xE3, CHR 0x81, CHR 0xA7, CHR 0xE3, CHR 0x81, CHR 0x8D, CHR 0xE3, CHR 0x81, CHR 0xBE, CHR 0xE3, CHR 0x81, CHR 0x9B, CHR 0xE3, CHR 0x82, CHR 0x93, CHR 0xE3, CHR 0x81, CHR 0xA7, CHR 0xE3, CHR 0x81, CHR 0x97, CHR 0xE3, CHR 0x81, CHR 0x9F]"

definition ALERT_DELETE_ERROR :: string where
  \<comment> \<open>the text of the alert of a failed deletion ("an error occurred while deleting; the
      database may be locked")\<close>
  "ALERT_DELETE_ERROR = [CHR 0xE5, CHR 0x89, CHR 0x8A, CHR 0xE9, CHR 0x99, CHR 0xA4, CHR 0xE4, CHR 0xB8, CHR 0xAD, CHR 0xE3, CHR 0x81, CHR 0xAB, CHR 0xE3, CHR 0x82, CHR 0xA8, CHR 0xE3, CHR 0x83, CHR 0xA9, CHR 0xE3, CHR 0x83, CHR 0xBC, CHR 0xE3, CHR 0x81, CHR 0x8C, CHR 0xE7, CHR 0x99, CHR 0xBA, CHR 0xE7, CHR 0x94, CHR 0x9F, CHR 0xE3, CHR 0x81, CHR 0x97, CHR 0xE3, CHR 0x81, CHR 0xBE, CHR 0xE3, CHR 0x81, CHR 0x97, CHR 0xE3, CHR 0x81, CHR 0x9F, CHR 0xE3, CHR 0x80, CHR 0x82, CHR ''D'', CHR ''B'', CHR 0xE3, CHR 0x81, CHR 0x8C, CHR 0xE3, CHR 0x83, CHR 0xAD, CHR 0xE3, CHR 0x83, CHR 0x83, CHR 0xE3, CHR 0x82, CHR 0xAF, CHR 0xE3, CHR 0x81, CHR 0x95, CHR 0xE3, CHR 0x82, CHR 0x8C, CHR 0xE3, CHR 0x81, CHR 0xA6, CHR 0xE3, CHR 0x81, CHR 0x84, CHR 0xE3, CHR 0x82, CHR 0x8B, CHR 0xE5, CHR 0x8F, CHR 0xAF, CHR 0xE8, CHR 0x83, CHR 0xBD, CHR 0xE6, CHR 0x80, CHR 0xA7, CHR 0xE3, CHR 0x81, CHR 0x8C, CHR 0xE3, CHR 0x81, CHR 0x82, CHR 0xE3, CHR 0x82, CHR 0x8A, CHR 0xE3, CHR 0x81, CHR 0xBE, CHR 0xE3, CHR 0x81, CHR 0x99, CHR 0xE3, CHR 0x80, CHR 0x82]"

section \<open>The durable store (dbService.ts)\<close>

text \<open>
  An IndexedDB object store with key path \<open>id\<close> is a list of rows by key. \<open>put\<close>
  replaces the row of its key or adds one, \<open>delete\<close> of a key that has no row does
  nothing. \<open>getAll\<close> lists the rows; the engine lists them in key order, the model in
  the order of arrival, and nothing below depends on that order.

  A row of the store \<open>photos\<close> is a photo object from which the property \<open>url\<close> has been
  deleted. A request or transaction fails when the engine says so: the flag \<open>ok\<close> of
  each operation is that answer, and a failed transaction leaves the stores as they were.
\<close>

type_synonym 'v store = "(string \<times> 'v) list"

record 'n PhotoRow =
  row_id :: string
  row_fileBlob :: "File optional"
  row_name :: string
  row_locationName :: string
  row_country :: "string optional"
  row_latitude :: 'n
  row_longitude :: 'n
  row_date :: string
  row_description :: string
  row_isProcessing :: bool
  row_manuallyPlaced :: "bool optional"

record 'n database =
  STORE_PHOTOS :: "'n PhotoRow store"
  STORE_NOTES :: "string store"

datatype error = DBError

definition delete_url :: "'n PhotoMetadata \<Rightarrow> 'n PhotoRow" where
  \<comment> \<open>\<open>const dataToSave = { ...photo }; delete dataToSave.url\<close>\<close>
  "delete_url photo =
     \<lparr>row_id = id' photo, row_fileBlob = fileBlob photo, row_name = name photo,
      row_locationName = locationName photo, row_country = country photo,
      row_latitude = latitude photo, row_longitude = longitude photo, row_date = date photo,
      row_description = description photo, row_isProcessing = isProcessing photo,
      row_manuallyPlaced = manuallyPlaced photo\<rparr>"

definition savePhoto :: "bool \<Rightarrow> 'n PhotoMetadata \<Rightarrow> 'n database \<Rightarrow> error + 'n database" where
  "savePhoto ok photo db =
     (if ok
      then Inr (db\<lparr>STORE_PHOTOS := AList.update (id' photo) (delete_url photo) (STORE_PHOTOS db)\<rparr>)
      else Inl DBError)"

definition deletePhoto :: "bool \<Rightarrow> string \<Rightarrow> 'n database \<Rightarrow> error + 'n database" where
  "deletePhoto ok photoId db =
     (if ok
      then Inr (db\<lparr>STORE_PHOTOS := AList.delete photoId (STORE_PHOTOS db),
                   STORE_NOTES := AList.delete photoId (STORE_NOTES db)\<rparr>)
      else Inl DBError)"

definition restore_url :: "(File \<Rightarrow> string) \<Rightarrow> 'n PhotoRow \<Rightarrow> 'n PhotoMetadata" where
  \<comment> \<open>\<open>{ ...p, url: p.fileBlob ? URL.createObjectURL(p.fileBlob) : "" }\<close>\<close>
  "restore_url createObjectURL p =
     \<lparr>id' = row_id p,
      url = (case row_fileBlob p of Given blob \<Rightarrow> createObjectURL blob | _ \<Rightarrow> []),
      fileBlob = row_fileBlob p, name = row_name p, locationName = row_locationName p,
      country = row_country p, latitude = row_latitude p, longitude = row_longitude p,
      date = row_date p, description = row_description p, isProcessing = row_isProcessing p,
      manuallyPlaced = row_manuallyPlaced p\<rparr>"

definition getAllPhotos :: "bool \<Rightarrow> (File \<Rightarrow> string) \<Rightarrow> 'n database \<Rightarrow> error + 'n PhotoMetadata list" where
  "getAllPhotos ok createObjectURL db =
     (if ok then Inr (map (\<lambda>(k, p). restore_url createObjectURL p) (STORE_PHOTOS db))
      else Inl DBError)"

definition saveNote :: "bool \<Rightarrow> string \<Rightarrow> string \<Rightarrow> 'n database \<Rightarrow> error + 'n database" where
  "saveNote ok photoId note db =
     (if ok then Inr (db\<lparr>STORE_NOTES := AList.update photoId note (STORE_NOTES db)\<rparr>)
      else Inl DBError)"

definition getAllNotes :: "bool \<Rightarrow> 'n database \<Rightarrow> error + (string \<rightharpoonup> string)" where
  "getAllNotes ok db = (if ok then Inr (map_of (STORE_NOTES db)) else Inl DBError)"

definition clearAllData :: "bool \<Rightarrow> 'n database \<Rightarrow> error + 'n database" where
  "clearAllData ok db = (if ok then Inr (db\<lparr>STORE_PHOTOS := [], STORE_NOTES := []\<rparr>) else Inl DBError)"

section \<open>The application state and its operations (App.tsx)\<close>

text \<open>
  The React state of \<open>App\<close> that the operations below touch, the database, and the alerts
  shown to the user. A state update \<open>setPhotos(f)\<close> is the assignment \<open>photos := f photos\<close>.
\<close>

record 'n app =
  photos :: "'n PhotoMetadata list"
  diaryNotes :: "string \<rightharpoonup> string"
  selectedPhotoForModal :: "'n PhotoMetadata option"
  focusedPhoto :: "'n PhotoMetadata option"
  db :: "'n database"
  alerts :: "string list"

definition initial_app :: "'n app" where
  \<comment> \<open>the state of a first start: nothing in memory, nothing stored\<close>
  "initial_app =
     \<lparr>photos = [], diaryNotes = Map.empty, selectedPhotoForModal = None, focusedPhoto = None,
      db = \<lparr>STORE_PHOTOS = [], STORE_NOTES = []\<rparr>, alerts = []\<rparr>"

fun findIndex :: "('a \<Rightarrow> bool) \<Rightarrow> 'a list \<Rightarrow> nat option" where
  \<comment> \<open>\<open>Array.prototype.findIndex\<close>; \<open>None\<close> is the result \<open>-1\<close>\<close>
  "findIndex P [] = None"
| "findIndex P (x # xs) = (if P x then Some 0 else map_option Suc (findIndex P xs))"

definition spread :: "'n PhotoMetadata \<Rightarrow> 'n PhotoMetadata \<Rightarrow> 'n PhotoMetadata" where
  \<comment> \<open>\<open>{ ...old, ...new }\<close> where \<open>new\<close> is a \<open>PhotoMetadata\<close>\<close>
  "spread old new =
     \<lparr>id' = id' new, url = url new, fileBlob = overwrite (fileBlob old) (fileBlob new),
      name = name new, locationName = locationName new,
      country = overwrite (country old) (country new),
      latitude = latitude new, longitude = longitude new, date = date new,
      description = description new, isProcessing = isProcessing new,
      manuallyPlaced = overwrite (manuallyPlaced old) (manuallyPlaced new)\<rparr>"

definition upsert :: "'n PhotoMetadata list \<Rightarrow> 'n PhotoMetadata \<Rightarrow> 'n PhotoMetadata list" where
  \<comment> \<open>the state update of \<open>addOrUpdatePhoto\<close>\<close>
  "upsert prev photo =
     (case findIndex (\<lambda>p. id' p = id' photo) prev of
        Some existingIndex \<Rightarrow> prev[existingIndex := spread (prev ! existingIndex) photo]
      | None \<Rightarrow> prev @ [photo])"

definition addOrUpdatePhoto :: "bool \<Rightarrow> 'n PhotoMetadata \<Rightarrow> 'n app \<Rightarrow> (error + unit) \<times> 'n app" where
  \<comment> \<open>the state is updated first; the promise is rejected when \<open>db.savePhoto\<close> fails\<close>
  "addOrUpdatePhoto ok photo s =
     (let s1 = s\<lparr>photos := upsert (photos s) photo\<rparr>
      in case savePhoto ok photo (db s1) of
           Inl e \<Rightarrow> (Inl e, s1)
         | Inr d \<Rightarrow> (Inr (), s1\<lparr>db := d\<rparr>))"

definition handleDeletePhoto :: "bool \<Rightarrow> bool \<Rightarrow> string \<Rightarrow> 'n app \<Rightarrow> 'n app" where
  \<comment> \<open>\<open>confirmed\<close> is the user's answer to \<open>window.confirm\<close>, \<open>ok\<close> the database's\<close>
  "handleDeletePhoto confirmed ok photoId s =
     (if \<not> confirmed then s
      else case deletePhoto ok photoId (db s) of
             Inr d \<Rightarrow>
               s\<lparr>db := d,
                 photos := filter (\<lambda>p. id' p \<noteq> photoId) (photos s),
                 diaryNotes := (diaryNotes s)(photoId := None),
                 selectedPhotoForModal := None,
                 focusedPhoto := (case focusedPhoto s of
                                    None \<Rightarrow> None
                                  | Some prev \<Rightarrow> if id' prev = photoId then None else Some prev)\<rparr>
           | Inl err \<Rightarrow> s\<lparr>alerts := alerts s @ [ALERT_DELETE_ERROR]\<rparr>)"

text \<open>
  The browser and the engine, as far as \<open>processFile\<close> calls them: \<open>URL.createObjectURL\<close>,
  \<open>new Date(milliseconds)\<close> read in local time, and \<open>new Date(string)\<close>.
\<close>

record engine =
  createObjectURL :: "File \<Rightarrow> string"
  newDate_ms :: "int \<Rightarrow> JSDate"
  newDate_string :: date_parser

definition photo_id :: "File \<Rightarrow> string" where
  \<comment> \<open>\<open>`photo-${file.name}-${file.size}-${file.lastModified}`\<close>\<close>
  "photo_id file =
     ''photo-'' @ file_name file @ ''-'' @ String_nat (file_size file) @ ''-'' @
     String_int (file_lastModified file)"

definition newPhoto :: "engine \<Rightarrow> File \<Rightarrow> ('n::zero) PhotoMetadata" where
  "newPhoto eng file =
     (let fileDate = newDate_ms eng (file_lastModified file);
          initialDate = (let e = extractDateFromFilename (file_name file)
                         in if truthy_string e then the e else formatToISO fileDate)
      in \<lparr>id' = photo_id file, url = createObjectURL eng file, fileBlob = Given file,
          name = file_name file, locationName = LOC_IDENTIFYING, country = Absent,
          latitude = 0, longitude = 0, date = initialDate, description = DESC_ANALYZING,
          isProcessing = True, manuallyPlaced = Given False\<rparr>)"

definition processFile :: "engine \<Rightarrow> bool \<Rightarrow> File \<Rightarrow> ('n::zero) app \<Rightarrow> (error + unit) \<times> 'n app" where
  \<comment> \<open>\<open>processFile\<close> up to \<open>reader.readAsDataURL(file)\<close>; when the first
      \<open>addOrUpdatePhoto\<close> is rejected the reader is never started\<close>
  "processFile eng ok file s = addOrUpdatePhoto ok (newPhoto eng file) s"

text \<open>
  What happens to the file reader and the analysis: the reader yields no data (nothing
  is done), \<open>analyzeImage\<close> is rejected, or it resolves to a result and \<open>db.savePhoto\<close>
  then answers \<open>ok\<close>.
\<close>

datatype 'n analysis = NoData | AnalysisRejected | Analysed "'n AnalysisResult" bool

definition mark_failed :: "string \<Rightarrow> 'n app \<Rightarrow> 'n app" where
  \<comment> \<open>the \<open>catch\<close> branch of \<open>reader.onload\<close>\<close>
  "mark_failed i s =
     s\<lparr>photos := map (\<lambda>p. if id' p = i
                            then p\<lparr>isProcessing := False, locationName := LOC_FAILED, description := ''Error''\<rparr>
                            else p) (photos s)\<rparr>"

definition updated_photo :: "engine \<Rightarrow> File \<Rightarrow> 'n AnalysisResult \<Rightarrow> 'n PhotoMetadata" where
  \<comment> \<open>the object \<open>updated\<close>; \<open>country: result.country\<close> always makes the property, with
      the value \<open>undefined\<close> when the result has none\<close>
  "updated_photo eng file result =
     (let fileDate = newDate_ms eng (file_lastModified file);
          finalDate = parseSmartDate (newDate_string eng) (file_name file) (r_date result) fileDate
      in \<lparr>id' = photo_id file, url = createObjectURL eng file, fileBlob = Given file,
          name = file_name file, locationName = r_locationName result,
          country = (case r_country result of Absent \<Rightarrow> Undefined | c \<Rightarrow> c),
          latitude = r_latitude result,
          longitude = r_longitude result, date = finalDate,
          description = r_description result, isProcessing = False,
          manuallyPlaced = Given False\<rparr>)"

definition reader_onload :: "engine \<Rightarrow> File \<Rightarrow> 'n analysis \<Rightarrow> 'n app \<Rightarrow> 'n app" where
  \<comment> \<open>\<open>reader.onload\<close> of \<open>processFile\<close>, run on the state of the moment it fires\<close>
  "reader_onload eng file a s =
     (case a of
        NoData \<Rightarrow> s
      | AnalysisRejected \<Rightarrow> mark_failed (photo_id file) s
      | Analysed result ok \<Rightarrow>
          (case addOrUpdatePhoto ok (updated_photo eng file result) s of
             (Inr u, s1) \<Rightarrow> s1
           | (Inl err, s1) \<Rightarrow> mark_failed (photo_id file) s1))"

text \<open>
  Manual relocation. The state update returns the new list and starts the asynchronous
  part, which keeps \<open>photo\<close> and \<open>updated\<close>; \<open>None\<close> says that no such part was started.
  Its course: something before the name is known is rejected (\<open>blobToBase64\<close>,
  \<open>identifyLocation\<close>), or the name arrives and \<open>db.savePhoto\<close> then answers \<open>ok\<close>.
\<close>

definition relocated :: "'n PhotoMetadata \<Rightarrow> 'n \<Rightarrow> 'n \<Rightarrow> 'n PhotoMetadata" where
  \<comment> \<open>the object \<open>updated\<close>\<close>
  "relocated photo lat lng =
     photo\<lparr>latitude := lat, longitude := lng, locationName := LOC_RESOLVING_NAME,
           isProcessing := True, manuallyPlaced := Given True\<rparr>"

definition replace_by_id :: "string \<Rightarrow> 'n PhotoMetadata \<Rightarrow> 'n PhotoMetadata list \<Rightarrow> 'n PhotoMetadata list" where
  \<comment> \<open>\<open>list.map(p => p.id === id ? q : p)\<close>\<close>
  "replace_by_id i q list = map (\<lambda>p. if id' p = i then q else p) list"

definition updatePhotoLocation ::
  "string \<Rightarrow> 'n \<Rightarrow> 'n \<Rightarrow> 'n app \<Rightarrow> 'n app \<times> ('n PhotoMetadata \<times> 'n PhotoMetadata) option" where
  "updatePhotoLocation i lat lng s =
     (case find (\<lambda>p. id' p = i) (photos s) of
        None \<Rightarrow> (s, None)
      | Some photo \<Rightarrow>
          (let updated = relocated photo lat lng
           in (s\<lparr>photos := replace_by_id i updated (photos s)\<rparr>, Some (photo, updated))))"

datatype relocation = Rejected | Named string bool

definition relocation_async ::
  "string \<Rightarrow> 'n PhotoMetadata \<times> 'n PhotoMetadata \<Rightarrow> relocation \<Rightarrow> 'n app \<Rightarrow> 'n app" where
  \<comment> \<open>the asynchronous part of \<open>updatePhotoLocation\<close>, run on the state of the moment it resumes\<close>
  "relocation_async i started r s =
     (case started of (photo, updated) \<Rightarrow>
        (let errorUpdate = updated\<lparr>locationName := LOC_NOT_IDENTIFIED, isProcessing := False\<rparr>
         in if truthy_obj (fileBlob photo)
            then (case r of
                    Rejected \<Rightarrow> s\<lparr>photos := replace_by_id i errorUpdate (photos s)\<rparr>
                  | Named aiLocationName ok \<Rightarrow>
                      (let finalUpdate = updated\<lparr>locationName := aiLocationName, isProcessing := False\<rparr>;
                           s1 = s\<lparr>photos := replace_by_id i finalUpdate (photos s)\<rparr>
                       in case savePhoto ok finalUpdate (db s1) of
                            Inr d \<Rightarrow> s1\<lparr>db := d\<rparr>
                          | Inl err \<Rightarrow> s1\<lparr>photos := replace_by_id i errorUpdate (photos s1)\<rparr>))
            else s))"

text \<open>Sequences of the two store operations, from the empty state.\<close>

datatype 'n store_op = Upsert bool "'n PhotoMetadata" | Delete bool bool string

fun apply_store_op :: "'n app \<Rightarrow> 'n store_op \<Rightarrow> 'n app" where
  "apply_store_op s (Upsert ok photo) = snd (addOrUpdatePhoto ok photo s)"
| "apply_store_op s (Delete confirmed ok photoId) = handleDeletePhoto confirmed ok photoId s"

definition run_store_ops :: "'n store_op list \<Rightarrow> 'n app" where
  "run_store_ops ops = foldl apply_store_op initial_app ops"

section \<open>Map clusters (MapView.tsx)\<close>

text \<open>
  The operations on numbers that \<open>MapView\<close> uses: \<open>isNaN(x)\<close>, \<open>x === 0\<close> and
  \<open>x.toFixed(6)\<close>. \<open>Number(x)\<close> of a number is the number.
\<close>

record 'n number_ops =
  isNaN :: "'n \<Rightarrow> bool"
  isZero :: "'n \<Rightarrow> bool"
  toFixed6 :: "'n \<Rightarrow> string"

record 'n ClusterItem =
  c_name :: string
  c_count :: nat
  lat :: 'n
  lng :: 'n
  photoIds :: "string list"
  thumbnailUrl :: string

definition located :: "'n number_ops \<Rightarrow> 'n PhotoMetadata \<Rightarrow> bool" where
  "located num p =
     (\<not> isNaN num (latitude p) \<and> \<not> isNaN num (longitude p) \<and>
      (\<not> isZero num (latitude p) \<or> \<not> isZero num (longitude p)))"

definition mappedPhotos :: "'n number_ops \<Rightarrow> 'n PhotoMetadata list \<Rightarrow> 'n PhotoMetadata list" where
  "mappedPhotos num list = filter (located num) list"

definition cluster_key :: "'n number_ops \<Rightarrow> 'n PhotoMetadata \<Rightarrow> string" where
  \<comment> \<open>\<open>`${Number(photo.latitude).toFixed(6)}-${Number(photo.longitude).toFixed(6)}`\<close>\<close>
  "cluster_key num photo = toFixed6 num (latitude photo) @ ''-'' @ toFixed6 num (longitude photo)"

definition cluster_step ::
  "'n number_ops \<Rightarrow> (string \<rightharpoonup> 'n ClusterItem) \<Rightarrow> 'n PhotoMetadata \<Rightarrow> (string \<rightharpoonup> 'n ClusterItem)" where
  \<comment> \<open>the reducer; a key is never a property of \<open>Object.prototype\<close>, it holds a \<open>-\<close>\<close>
  "cluster_step num acc photo =
     (let key = cluster_key num photo;
          acc1 = (case acc key of
                    None \<Rightarrow> acc(key \<mapsto> \<lparr>c_name = locationName photo, c_count = 0,
                                        lat = latitude photo, lng = longitude photo,
                                        photoIds = [], thumbnailUrl = url photo\<rparr>)
                  | Some c \<Rightarrow> acc)
      in case acc1 key of
           Some c \<Rightarrow> acc1(key \<mapsto> c\<lparr>c_count := c_count c + 1, photoIds := photoIds c @ [id' photo]\<rparr>)
         | None \<Rightarrow> acc1)"

definition clusters :: "'n number_ops \<Rightarrow> 'n PhotoMetadata list \<Rightarrow> (string \<rightharpoonup> 'n ClusterItem)" where
  "clusters num list = foldl (cluster_step num) Map.empty (mappedPhotos num list)"

text \<open>
  The words of the claim about clusters, written once more and not through the code's
  filter: a photo has a location when both coordinates are numbers and they are not
  \<open>(0, 0)\<close>; the members of a key are the photos of the list that have a location and
  that key, in the order of the list.
\<close>

definition has_location :: "'n number_ops \<Rightarrow> 'n PhotoMetadata \<Rightarrow> bool" where
  "has_location num p =
     (\<not> isNaN num (latitude p) \<and> \<not> isNaN num (longitude p) \<and>
      \<not> (isZero num (latitude p) \<and> isZero num (longitude p)))"

definition members :: "'n number_ops \<Rightarrow> 'n PhotoMetadata list \<Rightarrow> string \<Rightarrow> 'n PhotoMetadata list" where
  "members num list key = filter (\<lambda>p. has_location num p \<and> cluster_key num p = key) list"

definition rendering :: "string \<Rightarrow> bool" where
  \<comment> \<open>a shape that every result of \<open>toFixed\<close> has: not empty, and no \<open>-\<close> after the first character\<close>
  "rendering t = (t \<noteq> [] \<and> CHR ''-'' \<notin> set (tl t))"

definition fresh_cluster :: "'n PhotoMetadata \<Rightarrow> 'n ClusterItem" where
  \<comment> \<open>the object that the reducer creates for a key it meets for the first time\<close>
  "fresh_cluster photo =
     \<lparr>c_name = locationName photo, c_count = 0, lat = latitude photo, lng = longitude photo,
      photoIds = [], thumbnailUrl = url photo\<rparr>"

definition grow :: "'n ClusterItem \<Rightarrow> 'n PhotoMetadata list \<Rightarrow> 'n ClusterItem" where
  \<comment> \<open>a cluster after \<open>count++\<close> and \<open>photoIds.push(photo.id)\<close> for each photo of a list\<close>
  "grow c ms = c\<lparr>c_count := c_count c + length ms, photoIds := photoIds c @ map id' ms\<rparr>"

section \<open>Sample data\<close>

text \<open>The upload of the specification's scenario: a file, an engine in whose time zone the
  file's timestamp is 1 January 2024, and the result of its analysis. Numbers are integers.\<close>

definition example_file :: File where
  "example_file =
     \<lparr>file_name = ''20240305_trip.jpg'', file_size = 1024, file_lastModified = 1704067200000,
      file_type = ''image/jpeg'', file_bytes = []\<rparr>"

definition example_engine :: engine where
  "example_engine =
     \<lparr>createObjectURL = (\<lambda>f. ''blob:'' @ file_name f),
      newDate_ms = (\<lambda>ms. \<lparr>getFullYear = 2024, getMonth = 0, getDate = 1\<rparr>),
      newDate_string = no_date\<rparr>"

definition example_photo :: "int PhotoMetadata" where
  "example_photo = newPhoto example_engine example_file"

definition example_result :: "int AnalysisResult" where
  "example_result =
     \<lparr>r_locationName = ''Enoshima'', r_country = Given ''Japan'', r_latitude = 35,
      r_longitude = 139, r_date = ''2024/03/10'', r_description = ''beach''\<rparr>"

definition example_updated :: "int PhotoMetadata" where
  "example_updated = updated_photo example_engine example_file example_result"

definition example_other :: "int PhotoMetadata" where
  \<comment> \<open>a second photo, of another file\<close>
  "example_other = newPhoto example_engine (example_file\<lparr>file_name := ''IMG_0001.jpg''\<rparr>)"

definition example_state :: "int app" where
  "example_state =
     initial_app
       \<lparr>photos := [example_other, example_photo],
        diaryNotes := [id' example_photo \<mapsto> ''a day at the sea''],
        db := \<lparr>STORE_PHOTOS = [(id' example_other, delete_url example_other),
                               (id' example_photo, delete_url example_photo)],
               STORE_NOTES = [(id' example_photo, ''a day at the sea'')]\<rparr>\<rparr>"

definition example_blobless :: "int PhotoMetadata" where
  \<comment> \<open>a record whose file was not retained\<close>
  "example_blobless = example_photo\<lparr>fileBlob := Absent, isProcessing := False\<rparr>"

definition example_after_delete :: "int app" where
  \<comment> \<open>the file is accepted, then its photo is deleted while the analysis is under way\<close>
  "example_after_delete =
     handleDeletePhoto True True (photo_id example_file)
       (snd (processFile example_engine True example_file initial_app))"

definition example_numbers :: "int number_ops" where
  \<comment> \<open>the three operations on integers\<close>
  "example_numbers =
     \<lparr>isNaN = (\<lambda>x. False), isZero = (\<lambda>x. x = 0), toFixed6 = (\<lambda>x. String_int x @ ''.000000'')\<rparr>"

definition example_list :: "int PhotoMetadata list" where
  \<comment> \<open>two photos at (35, 139) and one that has no location yet\<close>
  "example_list = [example_updated, relocated example_other 35 139, example_photo]"

section \<open>Date resolution: the file name comes first\<close>











section \<open>The in-memory store: upsert and delete\<close>

lemma findIndex_None_iff: "findIndex P xs = None \<longleftrightarrow> (\<forall>x \<in> set xs. \<not> P x)"
  by (induction xs) auto

lemma findIndex_Some:
  "findIndex P xs = Some i \<Longrightarrow> i < length xs \<and> P (xs ! i) \<and> (\<forall>j < i. \<not> P (xs ! j))"
proof (induction xs arbitrary: i)
  case Nil
  then show ?case by simp
next
  case (Cons x xs)
  show ?case
  proof (cases "P x")
    case True
    then show ?thesis using Cons.prems by auto
  next
    case False
    then obtain k where k: "findIndex P xs = Some k" "i = Suc k" using Cons.prems by auto
    then have "k < length xs \<and> P (xs ! k) \<and> (\<forall>j < k. \<not> P (xs ! j))" using Cons.IH by blast
    then show ?thesis using False k by (auto simp: nth_Cons split: nat.splits)
  qed
qed

lemma findIndex_first:
  "i < length xs \<Longrightarrow> P (xs ! i) \<Longrightarrow> \<forall>j < i. \<not> P (xs ! j) \<Longrightarrow> findIndex P xs = Some i"
proof (induction xs arbitrary: i)
  case Nil
  then show ?case by simp
next
  case (Cons x xs)
  show ?case
  proof (cases i)
    case 0
    then show ?thesis using Cons.prems by simp
  next
    case (Suc k)
    have "\<not> P x" using Cons.prems(3) Suc by auto
    moreover have "findIndex P xs = Some k"
      using Cons.prems Suc by (intro Cons.IH) auto
    ultimately show ?thesis using Suc by simp
  qed
qed

lemma findIndex_update:
  assumes "findIndex P xs = Some i" "P y"
  shows "findIndex P (xs[i := y]) = Some i"
proof -
  from findIndex_Some[OF assms(1)] have "i < length xs" "\<forall>j < i. \<not> P (xs ! j)" by auto
  then show ?thesis using assms(2) by (intro findIndex_first) auto
qed

lemma findIndex_snoc:
  assumes "findIndex P xs = None" "P y"
  shows "findIndex P (xs @ [y]) = Some (length xs)"
  using assms by (intro findIndex_first) (auto simp: findIndex_None_iff nth_append)

lemma overwrite_twice: "overwrite (overwrite a b) b = overwrite a b"
  by (cases b) (simp_all add: overwrite_def)

lemma overwrite_self: "overwrite b b = b"
  by (cases b) (simp_all add: overwrite_def)

lemma spread_twice: "spread (spread old r) r = spread old r"
  by (simp add: spread_def overwrite_twice)

lemma spread_self: "spread r r = r"
  by (simp add: spread_def overwrite_self)

lemma id_spread: "id' (spread old r) = id' r"
  by (simp add: spread_def)

lemma upsert_twice: "upsert (upsert prev r) r = upsert prev r"
proof (cases "findIndex (\<lambda>p. id' p = id' r) prev")
  case None
  then have "findIndex (\<lambda>p. id' p = id' r) (prev @ [r]) = Some (length prev)"
    by (intro findIndex_snoc) auto
  then show ?thesis using None by (simp add: upsert_def spread_self)
next
  case (Some i)
  then have "findIndex (\<lambda>p. id' p = id' r) (prev[i := spread (prev ! i) r]) = Some i"
    by (intro findIndex_update) (auto simp: id_spread)
  moreover have "i < length prev" using findIndex_Some[OF Some] by simp
  ultimately show ?thesis using Some by (simp add: upsert_def spread_twice)
qed


lemma upsert_ids_present:
  assumes "id' r \<in> id' ` set prev"
  shows "map id' (upsert prev r) = map id' prev"
proof -
  from assms have "findIndex (\<lambda>p. id' p = id' r) prev \<noteq> None"
    by (auto simp: findIndex_None_iff)
  then obtain i where i: "findIndex (\<lambda>p. id' p = id' r) prev = Some i" by auto
  from findIndex_Some[OF i] have "i < length prev" "id' (prev ! i) = id' r" by auto
  then have "(map id' prev)[i := id' r] = map id' prev"
    by (metis list_update_id nth_map)
  then show ?thesis using i by (simp add: upsert_def map_update id_spread)
qed

lemma upsert_absent:
  assumes "id' r \<notin> id' ` set prev"
  shows "upsert prev r = prev @ [r]"
proof -
  from assms have "findIndex (\<lambda>p. id' p = id' r) prev = None"
    unfolding findIndex_None_iff by (metis imageI)
  then show ?thesis by (simp add: upsert_def)
qed

lemma upsert_first:
  assumes "i < length prev" "id' (prev ! i) = id' r" "\<forall>j < i. id' (prev ! j) \<noteq> id' r"
  shows "upsert prev r = prev[i := spread (prev ! i) r]"
proof -
  have "findIndex (\<lambda>p. id' p = id' r) prev = Some i"
    using assms by (intro findIndex_first) auto
  then show ?thesis by (simp add: upsert_def)
qed

lemma upsert_others:
  assumes "j < length prev" "id' (prev ! j) \<noteq> id' r"
  shows "upsert prev r ! j = prev ! j"
proof (cases "findIndex (\<lambda>p. id' p = id' r) prev")
  case None
  then show ?thesis using assms by (simp add: upsert_def nth_append)
next
  case (Some i)
  from findIndex_Some[OF Some] have "id' (prev ! i) = id' r" by simp
  then have "i \<noteq> j" using assms by auto
  then show ?thesis using Some by (simp add: upsert_def)
qed

lemma distinct_upsert:
  assumes "distinct (map id' prev)"
  shows "distinct (map id' (upsert prev r))"
proof (cases "id' r \<in> id' ` set prev")
  case True
  then show ?thesis using assms by (simp add: upsert_ids_present)
next
  case False
  then show ?thesis using assms by (simp add: upsert_absent)
qed

lemma photos_addOrUpdatePhoto: "photos (snd (addOrUpdatePhoto ok r s)) = upsert (photos s) r"
  by (simp add: addOrUpdatePhoto_def savePhoto_def Let_def)

lemma photos_handleDeletePhoto:
  "photos (handleDeletePhoto c ok i s) = (if c \<and> ok then filter (\<lambda>p. id' p \<noteq> i) (photos s) else photos s)"
  by (simp add: handleDeletePhoto_def deletePhoto_def)

lemma distinct_apply_store_op:
  "distinct (map id' (photos s)) \<Longrightarrow> distinct (map id' (photos (apply_store_op s op)))"
  by (cases op) (simp_all add: photos_addOrUpdatePhoto photos_handleDeletePhoto distinct_upsert distinct_map_filter)

lemma distinct_foldl_store_ops:
  "distinct (map id' (photos s)) \<Longrightarrow> distinct (map id' (photos (foldl apply_store_op s ops)))"
  by (induction ops arbitrary: s) (simp_all add: distinct_apply_store_op)

text \<open>
  Claim C3. Upsert is idempotent: \<open>addOrUpdatePhoto\<close> with a record, run a second time
  with the same record (and the same answer of the database), returns the same outcome
  and leaves the same state, in memory and in the database, as the first run. A record
  whose id is not in the list is added at the end; otherwise the first record of that id
  is replaced by the spread of the old and the new record, in which the new record's
  properties overwrite and an optional property absent from the new record keeps its
  old value.
\<close>

theorem addOrUpdatePhoto_idempotent:
  "addOrUpdatePhoto ok r (snd (addOrUpdatePhoto ok r s)) = addOrUpdatePhoto ok r s \<and>
   (id' r \<notin> id' ` set (photos s) \<longrightarrow>
      photos (snd (addOrUpdatePhoto ok r s)) = photos s @ [r]) \<and>
   (\<forall>i < length (photos s).
      id' (photos s ! i) = id' r \<and> (\<forall>j < i. id' (photos s ! j) \<noteq> id' r) \<longrightarrow>
      photos (snd (addOrUpdatePhoto ok r s)) = (photos s)[i := spread (photos s ! i) r]) \<and>
   (\<forall>old. fileBlob (spread old r) = (if fileBlob r = Absent then fileBlob old else fileBlob r) \<and>
          country (spread old r) = (if country r = Absent then country old else country r) \<and>
          manuallyPlaced (spread old r) =
            (if manuallyPlaced r = Absent then manuallyPlaced old else manuallyPlaced r) \<and>
          spread old r\<lparr>fileBlob := fileBlob r, country := country r, manuallyPlaced := manuallyPlaced r\<rparr> = r)"
proof (intro conjI allI impI)
  show "addOrUpdatePhoto ok r (snd (addOrUpdatePhoto ok r s)) = addOrUpdatePhoto ok r s"
    by (cases ok) (simp_all add: addOrUpdatePhoto_def savePhoto_def Let_def upsert_twice)
next
  assume "id' r \<notin> id' ` set (photos s)"
  then show "photos (snd (addOrUpdatePhoto ok r s)) = photos s @ [r]"
    by (simp add: photos_addOrUpdatePhoto upsert_absent)
next
  fix i
  assume "i < length (photos s)"
    and "id' (photos s ! i) = id' r \<and> (\<forall>j < i. id' (photos s ! j) \<noteq> id' r)"
  then show "photos (snd (addOrUpdatePhoto ok r s)) = (photos s)[i := spread (photos s ! i) r]"
    by (simp add: photos_addOrUpdatePhoto upsert_first)
next
  fix old
  show "fileBlob (spread old r) = (if fileBlob r = Absent then fileBlob old else fileBlob r)"
    by (cases "fileBlob r") (simp_all add: spread_def overwrite_def)
  show "country (spread old r) = (if country r = Absent then country old else country r)"
    by (cases "country r") (simp_all add: spread_def overwrite_def)
  show "manuallyPlaced (spread old r) =
          (if manuallyPlaced r = Absent then manuallyPlaced old else manuallyPlaced r)"
    by (cases "manuallyPlaced r") (simp_all add: spread_def overwrite_def)
  show "spread old r\<lparr>fileBlob := fileBlob r, country := country r, manuallyPlaced := manuallyPlaced r\<rparr> = r"
    by (simp add: spread_def)
qed


theorem addOrUpdatePhoto_idempotent_witness:
  "id' example_photo \<notin> id' ` set (photos (initial_app :: int app)) \<and>
   photos (snd (addOrUpdatePhoto True example_photo (initial_app :: int app))) = [example_photo] \<and>
   addOrUpdatePhoto True example_photo (snd (addOrUpdatePhoto True example_photo initial_app))
     = addOrUpdatePhoto True example_photo (initial_app :: int app) \<and>
   (0::nat) < length (photos (initial_app\<lparr>photos := [example_photo]\<rparr>)) \<and>
   id' (photos (initial_app\<lparr>photos := [example_photo]\<rparr>) ! 0) = id' example_updated \<and>
   photos (snd (addOrUpdatePhoto True example_updated (initial_app\<lparr>photos := [example_photo]\<rparr>)))
     = [spread example_photo example_updated]"
  using addOrUpdatePhoto_idempotent [of True example_photo initial_app]
    addOrUpdatePhoto_idempotent [of True example_updated "initial_app\<lparr>photos := [example_photo]\<rparr>"]
  by (simp add: initial_app_def example_photo_def example_updated_def newPhoto_def
      updated_photo_def Let_def)

text \<open>
  Claim C9. From the empty state, after any sequence of \<open>addOrUpdatePhoto\<close> and
  \<open>handleDeletePhoto\<close> (whatever the user and the database answer), no two records of
  the list have the same id. An upsert of an id that is in the list leaves the ids at
  all positions as they were, an upsert of a new id appends the record, and every record
  of another id stays at its index unchanged.
\<close>

theorem id_unique_invariant:
  "distinct (map id' (photos (run_store_ops ops :: 'n app))) \<and>
   (id' (r :: 'n PhotoMetadata) \<in> id' ` set (photos s) \<longrightarrow>
      map id' (photos (snd (addOrUpdatePhoto ok r s))) = map id' (photos s)) \<and>
   (id' r \<notin> id' ` set (photos s) \<longrightarrow>
      photos (snd (addOrUpdatePhoto ok r s)) = photos s @ [r]) \<and>
   (\<forall>j < length (photos s). id' (photos s ! j) \<noteq> id' r \<longrightarrow>
      photos (snd (addOrUpdatePhoto ok r s)) ! j = photos s ! j)"
proof (intro conjI allI impI)
  have "distinct (map id' (photos (initial_app :: 'n app)))" by (simp add: initial_app_def)
  then show "distinct (map id' (photos (run_store_ops ops :: 'n app)))"
    unfolding run_store_ops_def by (rule distinct_foldl_store_ops)
qed (simp_all add: photos_addOrUpdatePhoto upsert_ids_present upsert_absent upsert_others)


theorem id_unique_invariant_witness:
  "distinct (map id' (photos (run_store_ops
     [Upsert True example_photo, Upsert False example_updated,
      Delete True True (id' example_photo)] :: int app))) \<and>
   id' example_updated \<in> id' ` set (photos (initial_app\<lparr>photos := [example_other, example_photo]\<rparr>)) \<and>
   map id' (photos (snd (addOrUpdatePhoto True example_updated
      (initial_app\<lparr>photos := [example_other, example_photo]\<rparr>)))) = [id' example_other, id' example_photo] \<and>
   id' example_photo \<notin> id' ` set (photos (initial_app :: int app)) \<and>
   photos (snd (addOrUpdatePhoto True example_photo (initial_app :: int app))) = [example_photo] \<and>
   id' example_other \<noteq> id' example_updated \<and>
   photos (snd (addOrUpdatePhoto True example_updated
      (initial_app\<lparr>photos := [example_other, example_photo]\<rparr>))) ! 0 = example_other"
proof -
  have ne: "id' example_other \<noteq> id' example_updated"
    by (simp add: example_other_def example_updated_def newPhoto_def updated_photo_def
        Let_def photo_id_def example_file_def)
  have same: "id' example_updated = id' example_photo"
    by (simp add: example_photo_def example_updated_def newPhoto_def updated_photo_def Let_def)
  show ?thesis
    using ne same
      id_unique_invariant [of "[Upsert True example_photo, Upsert False example_updated,
        Delete True True (id' example_photo)]" example_updated
        "initial_app\<lparr>photos := [example_other, example_photo]\<rparr>" True]
      id_unique_invariant [of "[]" example_photo initial_app True]
    by (simp add: initial_app_def)
qed

section \<open>Deletion\<close>

lemma example_ids:
  "id' example_other \<noteq> id' example_photo"
  "id' example_updated = id' example_photo"
  "id' example_photo \<noteq> ''never''"
  "id' example_other \<noteq> ''never''"
  by (simp_all add: example_other_def example_photo_def example_updated_def newPhoto_def
      updated_photo_def Let_def photo_id_def example_file_def)

text \<open>
  Claim C4. A confirmed deletion of an id \<open>X\<close> that the database carries out removes the
  photo and the note of \<open>X\<close>, in memory and in both stores, and leaves every other id
  as it was. \<open>deletePhoto\<close> is one transaction over both stores: it either fails as a
  whole or returns stores in which neither a photo nor a note of \<open>X\<close> is left. Deleting an
  id that was never present succeeds: the database is returned as it was, and the list,
  the notes and the alerts are unchanged.
\<close>

theorem handleDeletePhoto_cascade:
  "(let s' = handleDeletePhoto True True X s in
      photos s' = filter (\<lambda>p. id' p \<noteq> X) (photos s) \<and>
      X \<notin> id' ` set (photos s') \<and>
      diaryNotes s' X = None \<and>
      map_of (STORE_PHOTOS (db s')) X = None \<and>
      map_of (STORE_NOTES (db s')) X = None \<and>
      alerts s' = alerts s \<and>
      (\<forall>Y. Y \<noteq> X \<longrightarrow>
         diaryNotes s' Y = diaryNotes s Y \<and>
         map_of (STORE_PHOTOS (db s')) Y = map_of (STORE_PHOTOS (db s)) Y \<and>
         map_of (STORE_NOTES (db s')) Y = map_of (STORE_NOTES (db s)) Y)) \<and>
   (case deletePhoto ok X d of
      Inl e \<Rightarrow> \<not> ok
    | Inr d' \<Rightarrow> ok \<and> map_of (STORE_PHOTOS d') X = None \<and> map_of (STORE_NOTES d') X = None) \<and>
   (X \<notin> fst ` set (STORE_PHOTOS d) \<and> X \<notin> fst ` set (STORE_NOTES d) \<longrightarrow>
      deletePhoto True X d = Inr d) \<and>
   (X \<notin> id' ` set (photos s) \<and> diaryNotes s X = None \<and>
    X \<notin> fst ` set (STORE_PHOTOS (db s)) \<and> X \<notin> fst ` set (STORE_NOTES (db s)) \<longrightarrow>
      photos (handleDeletePhoto True True X s) = photos s \<and>
      diaryNotes (handleDeletePhoto True True X s) = diaryNotes s \<and>
      db (handleDeletePhoto True True X s) = db s \<and>
      alerts (handleDeletePhoto True True X s) = alerts s)"
proof (intro conjI)
  show "let s' = handleDeletePhoto True True X s in
      photos s' = filter (\<lambda>p. id' p \<noteq> X) (photos s) \<and>
      X \<notin> id' ` set (photos s') \<and>
      diaryNotes s' X = None \<and>
      map_of (STORE_PHOTOS (db s')) X = None \<and>
      map_of (STORE_NOTES (db s')) X = None \<and>
      alerts s' = alerts s \<and>
      (\<forall>Y. Y \<noteq> X \<longrightarrow>
         diaryNotes s' Y = diaryNotes s Y \<and>
         map_of (STORE_PHOTOS (db s')) Y = map_of (STORE_PHOTOS (db s)) Y \<and>
         map_of (STORE_NOTES (db s')) Y = map_of (STORE_NOTES (db s)) Y)"
    by (auto simp: handleDeletePhoto_def deletePhoto_def Let_def delete_conv')
next
  show "case deletePhoto ok X d of
      Inl e \<Rightarrow> \<not> ok
    | Inr d' \<Rightarrow> ok \<and> map_of (STORE_PHOTOS d') X = None \<and> map_of (STORE_NOTES d') X = None"
    by (simp add: deletePhoto_def delete_conv')
next
  show "X \<notin> fst ` set (STORE_PHOTOS d) \<and> X \<notin> fst ` set (STORE_NOTES d) \<longrightarrow>
      deletePhoto True X d = Inr d"
    by (simp add: deletePhoto_def)
next
  show "X \<notin> id' ` set (photos s) \<and> diaryNotes s X = None \<and>
    X \<notin> fst ` set (STORE_PHOTOS (db s)) \<and> X \<notin> fst ` set (STORE_NOTES (db s)) \<longrightarrow>
      photos (handleDeletePhoto True True X s) = photos s \<and>
      diaryNotes (handleDeletePhoto True True X s) = diaryNotes s \<and>
      db (handleDeletePhoto True True X s) = db s \<and>
      alerts (handleDeletePhoto True True X s) = alerts s"
  proof
    assume a: "X \<notin> id' ` set (photos s) \<and> diaryNotes s X = None \<and>
      X \<notin> fst ` set (STORE_PHOTOS (db s)) \<and> X \<notin> fst ` set (STORE_NOTES (db s))"
    then have f: "filter (\<lambda>p. id' p \<noteq> X) (photos s) = photos s"
      by (auto simp: filter_id_conv)
    have n: "(diaryNotes s)(X := None) = diaryNotes s" using a by (simp add: fun_upd_idem)
    show "photos (handleDeletePhoto True True X s) = photos s \<and>
      diaryNotes (handleDeletePhoto True True X s) = diaryNotes s \<and>
      db (handleDeletePhoto True True X s) = db s \<and>
      alerts (handleDeletePhoto True True X s) = alerts s"
      using a f n by (simp add: handleDeletePhoto_def deletePhoto_def)
  qed
qed

theorem handleDeletePhoto_cascade_witness:
  "photos (handleDeletePhoto True True (id' example_photo) example_state) = [example_other] \<and>
   diaryNotes (handleDeletePhoto True True (id' example_photo) example_state) (id' example_photo) = None \<and>
   map_of (STORE_PHOTOS (db (handleDeletePhoto True True (id' example_photo) example_state)))
     (id' example_photo) = None \<and>
   map_of (STORE_NOTES (db (handleDeletePhoto True True (id' example_photo) example_state)))
     (id' example_photo) = None \<and>
   id' example_other \<noteq> id' example_photo \<and>
   map_of (STORE_PHOTOS (db (handleDeletePhoto True True (id' example_photo) example_state)))
     (id' example_other) = Some (delete_url example_other) \<and>
   ''never'' \<notin> id' ` set (photos example_state) \<and>
   ''never'' \<notin> fst ` set (STORE_PHOTOS (db example_state)) \<and>
   ''never'' \<notin> fst ` set (STORE_NOTES (db example_state)) \<and>
   deletePhoto True ''never'' (db example_state) = Inr (db example_state) \<and>
   photos (handleDeletePhoto True True ''never'' example_state) = photos example_state \<and>
   alerts (handleDeletePhoto True True ''never'' example_state) = []"
  using handleDeletePhoto_cascade [of "id' example_photo" example_state True "db example_state"]
    handleDeletePhoto_cascade [of "''never''" example_state True "db example_state"]
    example_ids
  by (simp add: example_state_def initial_app_def Let_def)

text \<open>
  Claim C5. When the durable delete fails, the user is shown the alert of a failed
  deletion, and the list of photos, the notes and the database are as before the attempt:
  the state changes in nothing but the alert.
\<close>

theorem handleDeletePhoto_failure:
  "handleDeletePhoto True False X s = s\<lparr>alerts := alerts s @ [ALERT_DELETE_ERROR]\<rparr> \<and>
   photos (handleDeletePhoto True False X s) = photos s \<and>
   diaryNotes (handleDeletePhoto True False X s) = diaryNotes s \<and>
   db (handleDeletePhoto True False X s) = db s \<and>
   alerts (handleDeletePhoto True False X s) \<noteq> alerts s"
  by (simp add: handleDeletePhoto_def deletePhoto_def)

section \<open>What is stored of a photo\<close>

lemma restore_delete_url:
  "restore_url c (delete_url photo) =
     photo\<lparr>url := (case fileBlob photo of Given blob \<Rightarrow> c blob | _ \<Rightarrow> [])\<rparr>"
  by (simp add: restore_url_def delete_url_def)

lemma delete_restore_url: "delete_url (restore_url c row) = row"
  by (simp add: restore_url_def delete_url_def)

lemma update_member: "(k, v) \<in> set (AList.update k v al)"
  by (induction al) auto

text \<open>
  Claim C6. The display reference never reaches the database: what \<open>savePhoto\<close> stores
  does not depend on the \<open>url\<close> of the photo, the stored row holds every other property
  (restoring it gives the photo back, but for the \<open>url\<close>), and \<open>getAllPhotos\<close> returns
  exactly the stored rows, each with a \<open>url\<close> made anew from its stored blob (the empty
  string for a row without a blob).
\<close>

theorem url_never_persisted:
  "savePhoto ok (photo\<lparr>url := u\<rparr>) d = savePhoto ok photo d \<and>
   (\<exists>d'. savePhoto True photo d = Inr d' \<and>
         map_of (STORE_PHOTOS d') (id' photo) = Some (delete_url photo) \<and>
         restore_url createURL (delete_url photo) =
           photo\<lparr>url := (case fileBlob photo of Given blob \<Rightarrow> createURL blob | _ \<Rightarrow> [])\<rparr> \<and>
         (\<exists>ps. getAllPhotos True createURL d' = Inr ps \<and>
               photo\<lparr>url := (case fileBlob photo of Given blob \<Rightarrow> createURL blob | _ \<Rightarrow> [])\<rparr> \<in> set ps)) \<and>
   (\<exists>ps. getAllPhotos True createURL d = Inr ps \<and>
         map delete_url ps = map snd (STORE_PHOTOS d) \<and>
         (\<forall>p \<in> set ps. \<forall>blob. fileBlob p = Given blob \<longrightarrow> url p = createURL blob) \<and>
         (\<forall>p \<in> set ps. \<not> truthy_obj (fileBlob p) \<longrightarrow> url p = []))"
proof (intro conjI)
  show "savePhoto ok (photo\<lparr>url := u\<rparr>) d = savePhoto ok photo d"
    by (simp add: savePhoto_def delete_url_def)
next
  let ?d' = "d\<lparr>STORE_PHOTOS := AList.update (id' photo) (delete_url photo) (STORE_PHOTOS d)\<rparr>"
  let ?p = "photo\<lparr>url := (case fileBlob photo of Given blob \<Rightarrow> createURL blob | _ \<Rightarrow> [])\<rparr>"
  have 1: "savePhoto True photo d = Inr ?d'" by (simp add: savePhoto_def)
  have 2: "map_of (STORE_PHOTOS ?d') (id' photo) = Some (delete_url photo)"
    by (simp add: update_conv')
  have 3: "restore_url createURL (delete_url photo) = ?p" by (rule restore_delete_url)
  have "(id' photo, delete_url photo) \<in> set (STORE_PHOTOS ?d')" by (simp add: update_member)
  then have "restore_url createURL (delete_url photo)
      \<in> set (map (\<lambda>(k, p). restore_url createURL p) (STORE_PHOTOS ?d'))"
    by force
  then have 4: "\<exists>ps. getAllPhotos True createURL ?d' = Inr ps \<and> ?p \<in> set ps"
    using 3 by (simp add: getAllPhotos_def)
  show "\<exists>d'. savePhoto True photo d = Inr d' \<and>
         map_of (STORE_PHOTOS d') (id' photo) = Some (delete_url photo) \<and>
         restore_url createURL (delete_url photo) = ?p \<and>
         (\<exists>ps. getAllPhotos True createURL d' = Inr ps \<and> ?p \<in> set ps)"
    using 1 2 3 4 by blast
next
  let ?ps = "map (\<lambda>(k, p). restore_url createURL p) (STORE_PHOTOS d)"
  have a: "getAllPhotos True createURL d = Inr ?ps" by (simp add: getAllPhotos_def)
  have b: "map delete_url ?ps = map snd (STORE_PHOTOS d)"
    by (induction "STORE_PHOTOS d") (auto simp: delete_restore_url split_beta)
  have c: "\<forall>p \<in> set ?ps. \<forall>blob. fileBlob p = Given blob \<longrightarrow> url p = createURL blob"
    by (auto simp: restore_url_def)
  have e: "\<forall>p \<in> set ?ps. \<not> truthy_obj (fileBlob p) \<longrightarrow> url p = []"
    by (auto simp: restore_url_def truthy_obj_def split: optional.splits)
  show "\<exists>ps. getAllPhotos True createURL d = Inr ps \<and>
         map delete_url ps = map snd (STORE_PHOTOS d) \<and>
         (\<forall>p \<in> set ps. \<forall>blob. fileBlob p = Given blob \<longrightarrow> url p = createURL blob) \<and>
         (\<forall>p \<in> set ps. \<not> truthy_obj (fileBlob p) \<longrightarrow> url p = [])"
    using a b c e by blast
qed


theorem url_never_persisted_witness:
  "savePhoto True (example_photo\<lparr>url := ''blob:stale''\<rparr>) (db initial_app)
     = savePhoto True example_photo (db initial_app) \<and>
   fileBlob example_photo = Given example_file \<and>
   getAllPhotos True (createObjectURL example_engine)
     \<lparr>STORE_PHOTOS = [(id' example_photo, delete_url example_photo)], STORE_NOTES = []\<rparr>
     = Inr [example_photo\<lparr>url := ''blob:20240305_trip.jpg''\<rparr>] \<and>
   url (example_photo\<lparr>url := ''blob:20240305_trip.jpg''\<rparr>) = createObjectURL example_engine example_file"
  using url_never_persisted [where ok = True and photo = example_photo and u = "''blob:stale''"
      and d = "db initial_app" and createURL = "createObjectURL example_engine"]
    url_never_persisted [where ok = True and photo = example_photo and u = "''blob:stale''"
      and d = "\<lparr>STORE_PHOTOS = [(id' example_photo, delete_url example_photo)], STORE_NOTES = []\<rparr>"
      and createURL = "createObjectURL example_engine"]
  by (simp add: example_photo_def example_engine_def example_file_def newPhoto_def Let_def
      getAllPhotos_def restore_url_def delete_url_def)


section \<open>Manual relocation\<close>

lemma find_SomeD: "find P xs = Some x \<Longrightarrow> P x \<and> x \<in> set xs"
  by (induction xs) (auto split: if_splits)

lemma replace_by_id_hit:
  "id' q = i \<Longrightarrow> p \<in> set (replace_by_id i q list) \<Longrightarrow> id' p = i \<Longrightarrow> p = q"
  by (auto simp: replace_by_id_def split: if_splits)

lemma replace_by_id_present:
  "id' q = i \<Longrightarrow> \<exists>p \<in> set list. id' p = i \<Longrightarrow> q \<in> set (replace_by_id i q list)"
  by (force simp: replace_by_id_def)

lemma replace_by_id_twice:
  "id' q = i \<Longrightarrow> replace_by_id i q' (replace_by_id i q list) = replace_by_id i q' list"
  by (simp add: replace_by_id_def)

lemma sentinels_distinct: "LOC_NOT_IDENTIFIED \<noteq> LOC_RESOLVING_NAME"
  by (simp add: LOC_NOT_IDENTIFIED_def LOC_RESOLVING_NAME_def)

lemma updatePhotoLocation_found:
  assumes "find (\<lambda>p. id' p = i) (photos s) = Some photo"
  shows "updatePhotoLocation i new_lat new_lng s =
           (s\<lparr>photos := replace_by_id i (relocated photo new_lat new_lng) (photos s)\<rparr>,
            Some (photo, relocated photo new_lat new_lng))"
  using assms by (simp add: updatePhotoLocation_def Let_def)

lemma id_relocated: "id' (relocated photo new_lat new_lng) = id' photo"
  by (simp add: relocated_def)

lemma photos_relocation_async:
  assumes "truthy_obj (fileBlob photo)" "id' updated = i"
  shows "photos (relocation_async i (photo, updated) r s) =
           replace_by_id i
             (updated\<lparr>locationName := (case r of Named n True \<Rightarrow> n | _ \<Rightarrow> LOC_NOT_IDENTIFIED),
                      isProcessing := False\<rparr>) (photos s)"
proof (cases r)
  case Rejected
  then show ?thesis using assms by (simp add: relocation_async_def Let_def)
next
  case (Named n ok)
  then show ?thesis using assms
    by (cases ok) (simp_all add: relocation_async_def Let_def savePhoto_def replace_by_id_twice)
qed

lemma db_relocation_async:
  "db (relocation_async i (photo, updated) r s) =
     (if truthy_obj (fileBlob photo)
      then (case r of
              Named n True \<Rightarrow>
                (db s)\<lparr>STORE_PHOTOS :=
                  AList.update (id' updated)
                    (delete_url (updated\<lparr>locationName := n, isProcessing := False\<rparr>))
                    (STORE_PHOTOS (db s))\<rparr>
            | _ \<Rightarrow> db s)
      else db s)"
proof (cases r)
  case Rejected
  then show ?thesis by (simp add: relocation_async_def Let_def)
next
  case (Named n ok)
  then show ?thesis
    by (cases ok) (simp_all add: relocation_async_def Let_def savePhoto_def)
qed

text \<open>
  Claim C8. Relocating a record that is in the list and has its file is an update in two
  phases. The state update itself, before any answer of the service, leaves every record
  of the id with the new coordinates, \<open>manuallyPlaced = true\<close>, \<open>isProcessing = true\<close>
  and the placeholder name, and writes nothing to the database. The asynchronous part,
  whenever it resumes and on whatever state, leaves every record of the id with
  \<open>isProcessing = false\<close> and the new coordinates. Its name is the name the service
  gave when the name arrived and the renamed record was stored; it is the
  could-not-identify name, which differs from the placeholder, when reading the file or
  the service call was rejected and also when storing the renamed record failed. A record
  of the id that is in the list stays in the list, and a name that was stored is in the
  database row of the id.
\<close>

theorem relocation_two_phase:
  assumes "find (\<lambda>p. id' p = i) (photos (s :: 'n app)) = Some photo"
    and "fileBlob photo = Given blob"
  shows "\<exists>s1 updated.
           updatePhotoLocation i new_lat new_lng s = (s1, Some (photo, updated)) \<and>
           db s1 = db s \<and>
           (\<exists>p \<in> set (photos s1). id' p = i) \<and>
           (\<forall>p \<in> set (photos s1). id' p = i \<longrightarrow>
              latitude p = new_lat \<and> longitude p = new_lng \<and> manuallyPlaced p = Given True \<and>
              isProcessing p \<and> locationName p = LOC_RESOLVING_NAME) \<and>
           (\<forall>r cur. \<forall>p \<in> set (photos (relocation_async i (photo, updated) r cur)). id' p = i \<longrightarrow>
              \<not> isProcessing p \<and>
              locationName p = (case r of Named n True \<Rightarrow> n | _ \<Rightarrow> LOC_NOT_IDENTIFIED) \<and>
              latitude p = new_lat \<and> longitude p = new_lng \<and> manuallyPlaced p = Given True) \<and>
           (\<forall>r cur. (\<exists>p \<in> set (photos cur). id' p = i) \<longrightarrow>
              (\<exists>p \<in> set (photos (relocation_async i (photo, updated) r cur)). id' p = i)) \<and>
           (\<forall>n cur. map_of (STORE_PHOTOS (db (relocation_async i (photo, updated) (Named n True) cur))) i
              = Some (delete_url (updated\<lparr>locationName := n, isProcessing := False\<rparr>))) \<and>
           LOC_NOT_IDENTIFIED \<noteq> LOC_RESOLVING_NAME"
proof -
  let ?u = "relocated photo new_lat new_lng"
  let ?s1 = "s\<lparr>photos := replace_by_id i ?u (photos s)\<rparr>"
  from find_SomeD[OF assms(1)] have idp: "id' photo = i" and mem: "photo \<in> set (photos s)" by auto
  have idu: "id' ?u = i" using idp by (simp add: id_relocated)
  have tr: "truthy_obj (fileBlob photo)" using assms(2) by (simp add: truthy_obj_def)
  have 1: "updatePhotoLocation i new_lat new_lng s = (?s1, Some (photo, ?u))"
    using assms(1) by (rule updatePhotoLocation_found)
  have 2: "db ?s1 = db s" by simp
  have 3: "\<exists>p \<in> set (photos ?s1). id' p = i"
    using replace_by_id_present[OF idu, of "photos s"] mem idp idu by auto
  have 4: "\<forall>p \<in> set (photos ?s1). id' p = i \<longrightarrow>
              latitude p = new_lat \<and> longitude p = new_lng \<and> manuallyPlaced p = Given True \<and>
              isProcessing p \<and> locationName p = LOC_RESOLVING_NAME"
  proof (intro ballI impI)
    fix p assume "p \<in> set (photos ?s1)" "id' p = i"
    then have "p = ?u" using replace_by_id_hit[OF idu] by simp
    then show "latitude p = new_lat \<and> longitude p = new_lng \<and> manuallyPlaced p = Given True \<and>
              isProcessing p \<and> locationName p = LOC_RESOLVING_NAME"
      by (simp add: relocated_def)
  qed
  have 5: "\<forall>r cur. \<forall>p \<in> set (photos (relocation_async i (photo, ?u) r cur)). id' p = i \<longrightarrow>
              \<not> isProcessing p \<and>
              locationName p = (case r of Named n True \<Rightarrow> n | _ \<Rightarrow> LOC_NOT_IDENTIFIED) \<and>
              latitude p = new_lat \<and> longitude p = new_lng \<and> manuallyPlaced p = Given True"
  proof (intro allI ballI impI)
    fix r and cur :: "'n app" and p
    let ?f = "?u\<lparr>locationName := (case r of Named n True \<Rightarrow> n | _ \<Rightarrow> LOC_NOT_IDENTIFIED),
                    isProcessing := False\<rparr>"
    assume "p \<in> set (photos (relocation_async i (photo, ?u) r cur))" "id' p = i"
    then have "p \<in> set (replace_by_id i ?f (photos cur))"
      using photos_relocation_async[OF tr idu] by simp
    moreover have "id' ?f = i" using idu by simp
    ultimately have "p = ?f" using \<open>id' p = i\<close> replace_by_id_hit by blast
    then show "\<not> isProcessing p \<and>
              locationName p = (case r of Named n True \<Rightarrow> n | _ \<Rightarrow> LOC_NOT_IDENTIFIED) \<and>
              latitude p = new_lat \<and> longitude p = new_lng \<and> manuallyPlaced p = Given True"
      by (simp add: relocated_def)
  qed
  have 6: "\<forall>r cur. (\<exists>p \<in> set (photos cur). id' p = i) \<longrightarrow>
              (\<exists>p \<in> set (photos (relocation_async i (photo, ?u) r cur)). id' p = i)"
  proof (intro allI impI)
    fix r and cur :: "'n app"
    let ?f = "?u\<lparr>locationName := (case r of Named n True \<Rightarrow> n | _ \<Rightarrow> LOC_NOT_IDENTIFIED),
                    isProcessing := False\<rparr>"
    assume ex: "\<exists>p \<in> set (photos cur). id' p = i"
    have idf: "id' ?f = i" using idu by simp
    have "?f \<in> set (replace_by_id i ?f (photos cur))"
      using replace_by_id_present[OF idf ex] .
    then show "\<exists>p \<in> set (photos (relocation_async i (photo, ?u) r cur)). id' p = i"
      using photos_relocation_async[OF tr idu] idf by metis
  qed
  have 7: "\<forall>n cur. map_of (STORE_PHOTOS (db (relocation_async i (photo, ?u) (Named n True) cur))) i
              = Some (delete_url (?u\<lparr>locationName := n, isProcessing := False\<rparr>))"
    using tr idu by (simp add: db_relocation_async update_conv')
  show ?thesis using 1 2 3 4 5 6 7 sentinels_distinct by blast
qed

theorem relocation_two_phase_witness:
  "find (\<lambda>p. id' p = id' example_photo) (photos example_state) = Some example_photo \<and>
   fileBlob example_photo = Given example_file \<and>
   updatePhotoLocation (id' example_photo) 10 20 example_state =
     (example_state\<lparr>photos := [example_other, relocated example_photo 10 20]\<rparr>,
      Some (example_photo, relocated example_photo 10 20)) \<and>
   isProcessing (relocated example_photo 10 20) \<and>
   locationName (relocated example_photo 10 20) = LOC_RESOLVING_NAME \<and>
   photos (relocation_async (id' example_photo) (example_photo, relocated example_photo 10 20)
      (Named ''Cape Town'' True)
      (example_state\<lparr>photos := [example_other, relocated example_photo 10 20]\<rparr>)) =
     [example_other, (relocated example_photo 10 20)\<lparr>locationName := ''Cape Town'', isProcessing := False\<rparr>] \<and>
   (\<exists>s1 updated.
      updatePhotoLocation (id' example_photo) 10 20 example_state = (s1, Some (example_photo, updated)) \<and>
      db s1 = db example_state \<and> LOC_NOT_IDENTIFIED \<noteq> LOC_RESOLVING_NAME)"
proof -
  have f: "find (\<lambda>p. id' p = id' example_photo) (photos example_state) = Some example_photo"
    using example_ids by (simp add: example_state_def initial_app_def)
  have b: "fileBlob example_photo = Given example_file"
    by (simp add: example_photo_def newPhoto_def Let_def)
  have u: "updatePhotoLocation (id' example_photo) 10 20 example_state =
     (example_state\<lparr>photos := [example_other, relocated example_photo 10 20]\<rparr>,
      Some (example_photo, relocated example_photo 10 20))"
    using f example_ids
    by (simp add: updatePhotoLocation_def Let_def replace_by_id_def example_state_def initial_app_def)
  have r: "isProcessing (relocated example_photo 10 20) \<and>
      locationName (relocated example_photo 10 20) = LOC_RESOLVING_NAME"
    by (simp add: relocated_def)
  have a: "photos (relocation_async (id' example_photo) (example_photo, relocated example_photo 10 20)
      (Named ''Cape Town'' True)
      (example_state\<lparr>photos := [example_other, relocated example_photo 10 20]\<rparr>)) =
     [example_other, (relocated example_photo 10 20)\<lparr>locationName := ''Cape Town'', isProcessing := False\<rparr>]"
    using b example_ids
    by (simp add: relocation_async_def Let_def truthy_obj_def savePhoto_def replace_by_id_def
        id_relocated)
  have e: "\<exists>s1 updated.
      updatePhotoLocation (id' example_photo) 10 20 example_state = (s1, Some (example_photo, updated)) \<and>
      db s1 = db example_state \<and> LOC_NOT_IDENTIFIED \<noteq> LOC_RESOLVING_NAME"
    using relocation_two_phase [OF f b, of 10 20] by blast
  show ?thesis using f b u r a e by blast
qed

text \<open>
  The claim C8 as it is written, the service's name whenever the service call succeeds,
  fails: below the service names the place, \<open>db.savePhoto\<close> is rejected, and the
  \<open>catch\<close> branch replaces the name by the could-not-identify name.
\<close>

theorem relocation_name_lost_counterexample:
  "fileBlob example_photo = Given example_file \<and>
   photos (relocation_async (id' example_photo) (example_photo, relocated example_photo 10 20)
      (Named ''Cape Town'' False)
      (example_state\<lparr>photos := [example_other, relocated example_photo 10 20]\<rparr>)) =
     [example_other,
      (relocated example_photo 10 20)\<lparr>locationName := LOC_NOT_IDENTIFIED, isProcessing := False\<rparr>] \<and>
   LOC_NOT_IDENTIFIED \<noteq> ''Cape Town''"
proof -
  have b: "fileBlob example_photo = Given example_file"
    by (simp add: example_photo_def newPhoto_def Let_def)
  have a: "photos (relocation_async (id' example_photo) (example_photo, relocated example_photo 10 20)
      (Named ''Cape Town'' False)
      (example_state\<lparr>photos := [example_other, relocated example_photo 10 20]\<rparr>)) =
     [example_other,
      (relocated example_photo 10 20)\<lparr>locationName := LOC_NOT_IDENTIFIED, isProcessing := False\<rparr>]"
    using b example_ids
    by (simp add: relocation_async_def Let_def truthy_obj_def savePhoto_def replace_by_id_def
        id_relocated)
  have n: "LOC_NOT_IDENTIFIED \<noteq> ''Cape Town''" by (simp add: LOC_NOT_IDENTIFIED_def)
  show ?thesis using b a n by blast
qed

text \<open>
  Claim C10. When no record has the id, \<open>updatePhotoLocation\<close> changes nothing and starts
  nothing. When the record has no file (\<open>fileBlob\<close> absent or undefined), the first phase
  is applied (new coordinates, \<open>isProcessing = true\<close>, the placeholder name) without a
  write to the database, and the asynchronous part is the identity on every state it
  could resume on, whatever the service and the database would answer: no second phase
  and no write.
\<close>

theorem relocation_without_blob:
  "(find (\<lambda>p. id' p = i) (photos s) = None \<longrightarrow> updatePhotoLocation i new_lat new_lng s = (s, None)) \<and>
   (find (\<lambda>p. id' p = i) (photos s) = Some photo \<and> \<not> truthy_obj (fileBlob photo) \<longrightarrow>
      (\<exists>s1 updated.
         updatePhotoLocation i new_lat new_lng s = (s1, Some (photo, updated)) \<and>
         db s1 = db s \<and>
         (\<exists>p \<in> set (photos s1). id' p = i) \<and>
         (\<forall>p \<in> set (photos s1). id' p = i \<longrightarrow>
            isProcessing p \<and> locationName p = LOC_RESOLVING_NAME \<and>
            latitude p = new_lat \<and> longitude p = new_lng \<and> manuallyPlaced p = Given True) \<and>
         (\<forall>r cur. relocation_async i (photo, updated) r cur = cur)))"
proof (intro conjI impI)
  assume "find (\<lambda>p. id' p = i) (photos s) = None"
  then show "updatePhotoLocation i new_lat new_lng s = (s, None)"
    by (simp add: updatePhotoLocation_def)
next
  assume a: "find (\<lambda>p. id' p = i) (photos s) = Some photo \<and> \<not> truthy_obj (fileBlob photo)"
  let ?u = "relocated photo new_lat new_lng"
  let ?s1 = "s\<lparr>photos := replace_by_id i ?u (photos s)\<rparr>"
  from a find_SomeD have idp: "id' photo = i" and mem: "photo \<in> set (photos s)" by fastforce+
  have idu: "id' ?u = i" using idp by (simp add: id_relocated)
  have 1: "updatePhotoLocation i new_lat new_lng s = (?s1, Some (photo, ?u))"
    using a by (simp add: updatePhotoLocation_found)
  have 2: "db ?s1 = db s" by simp
  have 3: "\<exists>p \<in> set (photos ?s1). id' p = i"
    using replace_by_id_present[OF idu, of "photos s"] mem idp idu by auto
  have 4: "\<forall>p \<in> set (photos ?s1). id' p = i \<longrightarrow>
            isProcessing p \<and> locationName p = LOC_RESOLVING_NAME \<and>
            latitude p = new_lat \<and> longitude p = new_lng \<and> manuallyPlaced p = Given True"
  proof (intro ballI impI)
    fix p assume "p \<in> set (photos ?s1)" "id' p = i"
    then have "p = ?u" using replace_by_id_hit[OF idu] by simp
    then show "isProcessing p \<and> locationName p = LOC_RESOLVING_NAME \<and>
            latitude p = new_lat \<and> longitude p = new_lng \<and> manuallyPlaced p = Given True"
      by (simp add: relocated_def)
  qed
  have 5: "\<forall>r cur. relocation_async i (photo, ?u) r cur = cur"
    using a by (simp add: relocation_async_def Let_def)
  show "\<exists>s1 updated.
         updatePhotoLocation i new_lat new_lng s = (s1, Some (photo, updated)) \<and>
         db s1 = db s \<and>
         (\<exists>p \<in> set (photos s1). id' p = i) \<and>
         (\<forall>p \<in> set (photos s1). id' p = i \<longrightarrow>
            isProcessing p \<and> locationName p = LOC_RESOLVING_NAME \<and>
            latitude p = new_lat \<and> longitude p = new_lng \<and> manuallyPlaced p = Given True) \<and>
         (\<forall>r cur. relocation_async i (photo, updated) r cur = cur)"
    using 1 2 3 4 5 by blast
qed


theorem relocation_without_blob_witness:
  "find (\<lambda>p. id' p = ''never'') (photos example_state) = None \<and>
   updatePhotoLocation ''never'' 10 20 example_state = (example_state, None) \<and>
   find (\<lambda>p. id' p = id' example_photo) (photos (initial_app\<lparr>photos := [example_blobless]\<rparr>))
     = Some example_blobless \<and>
   \<not> truthy_obj (fileBlob example_blobless) \<and>
   (\<exists>s1 updated.
      updatePhotoLocation (id' example_photo) 10 20 (initial_app\<lparr>photos := [example_blobless]\<rparr>)
        = (s1, Some (example_blobless, updated)) \<and>
      db s1 = db (initial_app\<lparr>photos := [example_blobless]\<rparr>) \<and>
      (\<forall>r cur. relocation_async (id' example_photo) (example_blobless, updated) r cur = cur))"
proof -
  have n: "find (\<lambda>p. id' p = ''never'') (photos example_state) = None"
    using example_ids by (simp add: example_state_def initial_app_def)
  have f: "find (\<lambda>p. id' p = id' example_photo) (photos (initial_app\<lparr>photos := [example_blobless]\<rparr>))
     = Some example_blobless"
    by (simp add: example_blobless_def)
  have t: "\<not> truthy_obj (fileBlob example_blobless)"
    by (simp add: example_blobless_def truthy_obj_def)
  have 1: "updatePhotoLocation ''never'' 10 20 example_state = (example_state, None)"
    using relocation_without_blob [of "''never''" example_state 10 20] n by blast
  have 2: "\<exists>s1 updated.
      updatePhotoLocation (id' example_photo) 10 20 (initial_app\<lparr>photos := [example_blobless]\<rparr>)
        = (s1, Some (example_blobless, updated)) \<and>
      db s1 = db (initial_app\<lparr>photos := [example_blobless]\<rparr>) \<and>
      (\<forall>r cur. relocation_async (id' example_photo) (example_blobless, updated) r cur = cur)"
    using relocation_without_blob [of "id' example_photo" "initial_app\<lparr>photos := [example_blobless]\<rparr>"
        10 20 example_blobless] f t by blast
  show ?thesis using n f t 1 2 by blast
qed

section \<open>Deletion while the analysis is under way\<close>

text \<open>
  Claim C1, evaluated. The sample file is accepted and its photo deleted before the
  analysis returns: no record and no row of the id are left. The analysis then resolves,
  and \<open>addOrUpdatePhoto\<close>, finding no record of the id, adds the analysed record to the
  list and stores its row: the deleted photo is back. (Only a rejected analysis, which
  updates the list by \<open>map\<close>, leaves the list empty.)
\<close>

theorem deleted_photo_resurrected:
  "photos example_after_delete = [] \<and>
   map_of (STORE_PHOTOS (db example_after_delete)) (photo_id example_file) = None \<and>
   id' example_updated = photo_id example_file \<and>
   photos (reader_onload example_engine example_file (Analysed example_result True) example_after_delete)
     = [example_updated] \<and>
   map_of (STORE_PHOTOS (db (reader_onload example_engine example_file (Analysed example_result True)
       example_after_delete))) (photo_id example_file) = Some (delete_url example_updated) \<and>
   photos (reader_onload example_engine example_file AnalysisRejected example_after_delete) = []"
  by (simp add: example_after_delete_def example_updated_def processFile_def addOrUpdatePhoto_def
      upsert_def savePhoto_def handleDeletePhoto_def deletePhoto_def reader_onload_def
      mark_failed_def initial_app_def newPhoto_def updated_photo_def Let_def)


section \<open>Map clusters\<close>

lemma grow_grow: "grow (grow c xs) ys = grow c (xs @ ys)"
  by (simp add: grow_def)

lemma cluster_step_key:
  "cluster_step num acc p key =
     (if cluster_key num p = key
      then Some (grow (case acc key of None \<Rightarrow> fresh_cluster p | Some c \<Rightarrow> c) [p])
      else acc key)"
  by (auto simp: cluster_step_def Let_def fresh_cluster_def grow_def split: option.splits)

lemma foldl_cluster_step:
  "foldl (cluster_step num) acc ps key =
     (case filter (\<lambda>p. cluster_key num p = key) ps of
        [] \<Rightarrow> acc key
      | m # ms \<Rightarrow> Some (grow (case acc key of None \<Rightarrow> fresh_cluster m | Some c \<Rightarrow> c) (m # ms)))"
proof (induction ps arbitrary: acc)
  case Nil
  then show ?case by simp
next
  case (Cons p ps)
  let ?acc = "cluster_step num acc p"
  let ?ms = "filter (\<lambda>p. cluster_key num p = key) ps"
  note IH = Cons.IH[of ?acc]
  show ?case
  proof (cases "cluster_key num p = key")
    case False
    then have k: "?acc key = acc key" by (simp add: cluster_step_key)
    show ?thesis using False IH unfolding k by simp
  next
    case True
    let ?base = "case acc key of None \<Rightarrow> fresh_cluster p | Some c \<Rightarrow> c"
    have k: "?acc key = Some (grow ?base [p])" using True by (simp add: cluster_step_key)
    have "foldl (cluster_step num) ?acc ps key = Some (grow ?base (p # ?ms))"
      using IH unfolding k by (cases ?ms) (simp_all add: grow_grow)
    then show ?thesis using True by simp
  qed
qed

lemma located_has_location: "located num p = has_location num p"
  by (auto simp: located_def has_location_def)

lemma members_mappedPhotos:
  "members num list key = filter (\<lambda>p. cluster_key num p = key) (mappedPhotos num list)"
  by (simp add: members_def mappedPhotos_def located_has_location conj_commute)

lemma clusters_members:
  "clusters num list key =
     (case members num list key of
        [] \<Rightarrow> None
      | m # ms \<Rightarrow>
          Some \<lparr>c_name = locationName m, c_count = length (m # ms), lat = latitude m,
                lng = longitude m, photoIds = map id' (m # ms), thumbnailUrl = url m\<rparr>)"
  by (simp add: clusters_def members_mappedPhotos foldl_cluster_step fresh_cluster_def grow_def
      split: list.splits)

lemma first_separator:
  "x \<notin> set xs \<Longrightarrow> x \<notin> set xs' \<Longrightarrow> xs @ x # ys = xs' @ x # ys' \<Longrightarrow> xs = xs' \<and> ys = ys'"
proof (induction xs arbitrary: xs')
  case Nil
  then show ?case by (cases xs') auto
next
  case (Cons a xs)
  then show ?case by (cases xs') auto
qed

lemma cluster_key_inj:
  assumes "rendering (toFixed6 num (latitude p))" "rendering (toFixed6 num (latitude q))"
  shows "cluster_key num p = cluster_key num q \<longleftrightarrow>
         toFixed6 num (latitude p) = toFixed6 num (latitude q) \<and>
         toFixed6 num (longitude p) = toFixed6 num (longitude q)"
proof -
  from assms(1) obtain a as where a: "toFixed6 num (latitude p) = a # as" "CHR ''-'' \<notin> set as"
    by (cases "toFixed6 num (latitude p)") (auto simp: rendering_def)
  from assms(2) obtain b bs where b: "toFixed6 num (latitude q) = b # bs" "CHR ''-'' \<notin> set bs"
    by (cases "toFixed6 num (latitude q)") (auto simp: rendering_def)
  have "as @ CHR ''-'' # toFixed6 num (longitude p) = bs @ CHR ''-'' # toFixed6 num (longitude q)
        \<longleftrightarrow> as = bs \<and> toFixed6 num (longitude p) = toFixed6 num (longitude q)"
    using first_separator[OF a(2) b(2)] by blast
  then show ?thesis using a(1) b(1) by (auto simp: cluster_key_def)
qed


text \<open>
  Claim C7. The clusters are made of the photos that have a location, and of no others:
  the reducer's result at a key is the cluster of the members of that key (no cluster when
  there is none), with the \<open>locationName\<close> (and coordinates and \<open>url\<close>) of the first
  member, the number of members as \<open>count\<close>, and their ids, in the order of the list, as
  \<open>photoIds\<close>. Two photos of the list that have a location are members of the same
  cluster exactly when their latitudes and their longitudes are equal as rendered by
  \<open>toFixed(6)\<close>, and each is a member of the cluster of its key. The key joins the two
  renderings with \<open>-\<close>; that equal keys give equal renderings uses the shape of a result
  of \<open>toFixed\<close> (not empty, a \<open>-\<close> at most in front), which is asked of the latitudes'
  renderings.
\<close>

theorem clusters_by_rendered_coordinates:
  assumes "p \<in> set list" "q \<in> set list" "has_location num p" "has_location num q"
    and "rendering (toFixed6 num (latitude p))" "rendering (toFixed6 num (latitude q))"
  shows "((\<exists>key. p \<in> set (members num list key) \<and> q \<in> set (members num list key)) \<longleftrightarrow>
            toFixed6 num (latitude p) = toFixed6 num (latitude q) \<and>
            toFixed6 num (longitude p) = toFixed6 num (longitude q)) \<and>
         p \<in> set (members num list (cluster_key num p)) \<and>
         (\<forall>key. clusters num list key =
            (case members num list key of
               [] \<Rightarrow> None
             | m # ms \<Rightarrow>
                 Some \<lparr>c_name = locationName m, c_count = length (m # ms), lat = latitude m,
                       lng = longitude m, photoIds = map id' (m # ms), thumbnailUrl = url m\<rparr>)) \<and>
         (\<forall>key m. m \<in> set (members num list key) \<longleftrightarrow>
            m \<in> set list \<and>
            \<not> isNaN num (latitude m) \<and> \<not> isNaN num (longitude m) \<and>
            \<not> (isZero num (latitude m) \<and> isZero num (longitude m)) \<and>
            toFixed6 num (latitude m) @ ''-'' @ toFixed6 num (longitude m) = key) \<and>
         mappedPhotos num list =
           filter (\<lambda>m. \<not> isNaN num (latitude m) \<and> \<not> isNaN num (longitude m) \<and>
                        \<not> (isZero num (latitude m) \<and> isZero num (longitude m))) list"
proof (intro conjI allI)
  have mem: "\<And>x key. x \<in> set (members num list key) \<longleftrightarrow>
      x \<in> set list \<and> has_location num x \<and> cluster_key num x = key"
    by (auto simp: members_def)
  have "(\<exists>key. p \<in> set (members num list key) \<and> q \<in> set (members num list key)) \<longleftrightarrow>
      cluster_key num p = cluster_key num q"
    using assms(1-4) by (auto simp: mem)
  then show "(\<exists>key. p \<in> set (members num list key) \<and> q \<in> set (members num list key)) \<longleftrightarrow>
            toFixed6 num (latitude p) = toFixed6 num (latitude q) \<and>
            toFixed6 num (longitude p) = toFixed6 num (longitude q)"
    using cluster_key_inj[OF assms(5,6)] by simp
  show "p \<in> set (members num list (cluster_key num p))"
    using assms(1,3) by (simp add: mem)
  show "mappedPhotos num list =
           filter (\<lambda>m. \<not> isNaN num (latitude m) \<and> \<not> isNaN num (longitude m) \<and>
                        \<not> (isZero num (latitude m) \<and> isZero num (longitude m))) list"
    unfolding mappedPhotos_def by (rule filter_cong) (auto simp: located_def)
next
  fix key
  show "clusters num list key =
            (case members num list key of
               [] \<Rightarrow> None
             | m # ms \<Rightarrow>
                 Some \<lparr>c_name = locationName m, c_count = length (m # ms), lat = latitude m,
                       lng = longitude m, photoIds = map id' (m # ms), thumbnailUrl = url m\<rparr>)"
    by (rule clusters_members)
next
  fix key m
  show "m \<in> set (members num list key) \<longleftrightarrow>
            m \<in> set list \<and>
            \<not> isNaN num (latitude m) \<and> \<not> isNaN num (longitude m) \<and>
            \<not> (isZero num (latitude m) \<and> isZero num (longitude m)) \<and>
            toFixed6 num (latitude m) @ ''-'' @ toFixed6 num (longitude m) = key"
    by (auto simp: members_def has_location_def cluster_key_def)
qed

lemma example_renderings:
  "toFixed6 example_numbers 35 = ''35.000000''"
  "toFixed6 example_numbers 139 = ''139.000000''"
  "toFixed6 example_numbers 0 = ''0.000000''"
  by (simp_all add: example_numbers_def String_int_def String_nat.simps digit_char_def)

theorem clusters_by_rendered_coordinates_witness:
  "example_updated \<in> set example_list \<and>
   relocated example_other 35 139 \<in> set example_list \<and>
   has_location example_numbers example_updated \<and>
   has_location example_numbers (relocated example_other 35 139) \<and>
   \<not> has_location example_numbers example_photo \<and>
   rendering (toFixed6 example_numbers (latitude example_updated)) \<and>
   rendering (toFixed6 example_numbers (latitude (relocated example_other 35 139))) \<and>
   members example_numbers example_list ''35.000000-139.000000''
     = [example_updated, relocated example_other 35 139] \<and>
   clusters example_numbers example_list ''35.000000-139.000000'' =
     Some \<lparr>c_name = ''Enoshima'', c_count = 2, lat = 35, lng = 139,
           photoIds = [id' example_photo, id' example_other],
           thumbnailUrl = ''blob:20240305_trip.jpg''\<rparr> \<and>
   cluster_key example_numbers example_photo = ''0.000000-0.000000'' \<and>
   clusters example_numbers example_list ''0.000000-0.000000'' = None"
proof -
  have c: "latitude example_updated = 35" "longitude example_updated = 139"
      "latitude (relocated example_other 35 139) = 35"
      "longitude (relocated example_other 35 139) = 139"
      "latitude example_photo = 0" "longitude example_photo = 0"
    by (simp_all add: example_updated_def updated_photo_def example_result_def relocated_def
        example_photo_def newPhoto_def Let_def)
  have m1: "example_updated \<in> set example_list" and m2: "relocated example_other 35 139 \<in> set example_list"
    by (simp_all add: example_list_def)
  have l1: "has_location example_numbers example_updated"
    and l2: "has_location example_numbers (relocated example_other 35 139)"
    and l3: "\<not> has_location example_numbers example_photo"
    using c by (simp_all add: has_location_def example_numbers_def)
  have r1: "rendering (toFixed6 example_numbers (latitude example_updated))"
    and r2: "rendering (toFixed6 example_numbers (latitude (relocated example_other 35 139)))"
    using c example_renderings by (simp_all add: rendering_def)
  have k: "cluster_key example_numbers example_updated = ''35.000000-139.000000''"
      "cluster_key example_numbers (relocated example_other 35 139) = ''35.000000-139.000000''"
    using c example_renderings by (simp_all add: cluster_key_def)
  have mem: "members example_numbers example_list ''35.000000-139.000000''
     = [example_updated, relocated example_other 35 139]"
    using l1 l2 l3 k by (simp add: members_def example_list_def)
  have k0: "cluster_key example_numbers example_photo = ''0.000000-0.000000''"
    using c example_renderings by (simp add: cluster_key_def)
  have mem0: "members example_numbers example_list ''0.000000-0.000000'' = []"
    using l3 k by (simp add: members_def example_list_def)
  have f: "locationName example_updated = ''Enoshima''" "url example_updated = ''blob:20240305_trip.jpg''"
      "id' (relocated example_other 35 139) = id' example_other"
    by (simp_all add: example_updated_def updated_photo_def example_result_def example_engine_def
        example_file_def relocated_def Let_def)
  have "clusters example_numbers example_list ''35.000000-139.000000'' =
     Some \<lparr>c_name = ''Enoshima'', c_count = 2, lat = 35, lng = 139,
           photoIds = [id' example_photo, id' example_other],
           thumbnailUrl = ''blob:20240305_trip.jpg''\<rparr>"
    using clusters_by_rendered_coordinates [OF m1 m2 l1 l2 r1 r2] mem c f example_ids by simp
  moreover have "clusters example_numbers example_list ''0.000000-0.000000'' = None"
    using clusters_by_rendered_coordinates [OF m1 m2 l1 l2 r1 r2] mem0 by simp
  ultimately show ?thesis using m1 m2 l1 l2 l3 r1 r2 mem k0 by blast
qed


end
